theory Spec2Isabelle
  imports Main "HOL-Library.Word"
begin

unbundle bit_operations_syntax

section \<open>Rings (ring.h)\<close>

text \<open>
  ring.h and the ring's implementation are not among the sources; the storage stub
  calls \<^verbatim>\<open>ring_enq\<close>, \<^verbatim>\<open>ring_2enq\<close> and \<^verbatim>\<open>ring_2deq\<close> and tests what they
  return against zero. The ring is taken from section 4.A of the spec.
\<close>

text \<open>
  Modelled from the spec: \<^verbatim>\<open>ring_data_t\<close> of ring.h. ``A bounded FIFO of word-sized
  entries (variants: single-slot and double-slot carrying a primary pointer and a small
  auxiliary word)'', made by \<^verbatim>\<open>init(capacity)\<close>: the capacity and the entries, oldest
  first. An entry of a double-slot ring is a pair.
\<close>

record 'a ring_data_t =
  ring_size :: nat
  ring_elems :: "'a list"

text \<open>
  Modelled from the spec: the nonzero \<^verbatim>\<open>int\<close> that the ring functions of ring.h return
  for \<^verbatim>\<open>Full\<close> and \<^verbatim>\<open>Empty\<close>. The spec does not give its value; 1 stands for it,
  and the callers only distinguish it from 0.
\<close>

definition RING_ERR :: int where
  "RING_ERR = 1"

text \<open>
  Modelled from the spec: \<^verbatim>\<open>ring_enq\<close> of ring.h, ``\<^verbatim>\<open>enq(e) -> Ok | Full\<close>''. \<open>Inl\<close>
  carries the error code of a full ring, \<open>Inr\<close> (the C return value 0) the ring with
  the entry at its tail.
\<close>

definition ring_enq :: "'a ring_data_t \<Rightarrow> 'a \<Rightarrow> int + 'a ring_data_t" where
  "ring_enq ring e =
     (if ring_size ring \<le> length (ring_elems ring) then Inl RING_ERR
      else Inr (ring\<lparr>ring_elems := ring_elems ring @ [e]\<rparr>))"

text \<open>
  Modelled from the spec: \<^verbatim>\<open>ring_2enq\<close> of ring.h, ``\<^verbatim>\<open>2enq(a, b)\<close>'', the
  double-slot variant of \<^verbatim>\<open>enq\<close>.
\<close>

definition ring_2enq :: "('a \<times> 'b) ring_data_t \<Rightarrow> 'a \<Rightarrow> 'b \<Rightarrow> int + ('a \<times> 'b) ring_data_t" where
  "ring_2enq ring a b =
     (if ring_size ring \<le> length (ring_elems ring) then Inl RING_ERR
      else Inr (ring\<lparr>ring_elems := ring_elems ring @ [(a, b)]\<rparr>))"

text \<open>
  Modelled from the spec: \<^verbatim>\<open>ring_2deq\<close> of ring.h, ``\<^verbatim>\<open>deq() -> Ok(e) | Empty\<close>'' and
  ``\<^verbatim>\<open>2deq() -> (a, b)\<close>''. \<open>Inl\<close> carries the error code of an empty ring, \<open>Inr\<close>
  the oldest pair and the ring without it.
\<close>

definition ring_2deq :: "('a \<times> 'b) ring_data_t \<Rightarrow> int + ('a \<times> 'b \<times> ('a \<times> 'b) ring_data_t)" where
  "ring_2deq ring =
     (case ring_elems ring of
        [] \<Rightarrow> Inl RING_ERR
      | (a, b) # rest \<Rightarrow> Inr (a, b, ring\<lparr>ring_elems := rest\<rparr>))"

section \<open>Storage stub: connection state (sstub\_api.c)\<close>

text \<open>
  \<^verbatim>\<open>cstate_t\<close> and \<^verbatim>\<open>listener_state_t\<close> are declared in sstub\_impl.h, which is not
  among the sources; the records hold the fields that sstub\_api.c reads and writes.
  The numeric values of the flag bits are not known, so \<^verbatim>\<open>flags |= F\<close> is the
  insertion of the flag's name into a set. An object pointer is a value of type \<open>'obj\<close>,
  the application cookie a value of type \<open>'app\<close>. The release callback works on the
  application's memory, the state \<open>'w\<close> that is passed through.
\<close>

datatype cstate_flag = CSTATE_OBJ_DATA | CSTATE_CONTROL_DATA

type_synonym addr = "64 word"

record ('obj, 'app, 'w) listener_state_t =
  release_obj_cb :: "'app \<Rightarrow> 'obj \<Rightarrow> 'w \<Rightarrow> 'w"

record ('obj, 'app, 'w) cstate_t =
  flags :: "cstate_flag set"
  lstate :: "('obj, 'app, 'w) listener_state_t"
  app_cookie :: 'app
  complete_obj_ring :: "('obj \<times> int) ring_data_t"
  partial_obj_ring :: "('obj \<times> int) ring_data_t"
  control_tx_ring :: "addr ring_data_t"

text \<open>
  \<^verbatim>\<open>sstub_send_obj\<close> (lines 81-121): under the connection mutex the flag is set and the
  pair is enqueued on the ring that \<^verbatim>\<open>complete\<close> selects; the ring's code is returned
  when it is nonzero, 0 otherwise.
\<close>

definition sstub_send_obj ::
  "('obj, 'app, 'w) cstate_t \<Rightarrow> 'obj \<Rightarrow> int \<Rightarrow> int \<Rightarrow> int \<times> ('obj, 'app, 'w) cstate_t" where
  "sstub_send_obj cstate obj ver_no complete =
     (let cs = cstate\<lparr>flags := flags cstate \<union> {CSTATE_OBJ_DATA}\<rparr> in
      if complete \<noteq> 0 then
        (case ring_2enq (complete_obj_ring cs) obj ver_no of
           Inl err \<Rightarrow> (if err \<noteq> 0 then (err, cs) else (0, cs))
         | Inr ring \<Rightarrow> (0, cs\<lparr>complete_obj_ring := ring\<rparr>))
      else
        (case ring_2enq (partial_obj_ring cs) obj ver_no of
           Inl err \<Rightarrow> (if err \<noteq> 0 then (err, cs) else (0, cs))
         | Inr ring \<Rightarrow> (0, cs\<lparr>partial_obj_ring := ring\<rparr>)))"

text \<open>
  \<^verbatim>\<open>sstub_get_partial\<close> (lines 123-146): one dequeue from the partial ring; the version
  number is read and dropped.
\<close>

definition sstub_get_partial ::
  "('obj, 'app, 'w) cstate_t \<Rightarrow> int \<times> 'obj option \<times> ('obj, 'app, 'w) cstate_t" where
  "sstub_get_partial cstate =
     (case ring_2deq (partial_obj_ring cstate) of
        Inl err \<Rightarrow> (err, None, cstate)
      | Inr (obj, vnum, ring) \<Rightarrow> (0, Some obj, cstate\<lparr>partial_obj_ring := ring\<rparr>))"

text \<open>
  \<^verbatim>\<open>sstub_flush_objs\<close> (lines 148-203): two \<^verbatim>\<open>while (1)\<close> loops. Each iteration
  dequeues one pair and leaves the loop when the ring reports an error; otherwise the
  release callback of the listener is called on the object. \<^verbatim>\<open>ver_no\<close> is not read.
\<close>

function flush_complete_loop ::
  "('obj, 'app, 'w) cstate_t \<Rightarrow> 'w \<Rightarrow> ('obj, 'app, 'w) cstate_t \<times> 'w" where
  "flush_complete_loop cstate w =
     (case ring_2deq (complete_obj_ring cstate) of
        Inl err \<Rightarrow> (cstate, w)
      | Inr (junk, vnum, ring) \<Rightarrow>
          flush_complete_loop (cstate\<lparr>complete_obj_ring := ring\<rparr>)
            (release_obj_cb (lstate cstate) (app_cookie cstate) junk w))"
  by pat_completeness auto
termination
  by (relation "measure (\<lambda>(cstate, w). length (ring_elems (complete_obj_ring cstate)))")
     (auto simp: ring_2deq_def split: list.splits)

function flush_partial_loop ::
  "('obj, 'app, 'w) cstate_t \<Rightarrow> 'w \<Rightarrow> int \<times> ('obj, 'app, 'w) cstate_t \<times> 'w" where
  "flush_partial_loop cstate w =
     (case ring_2deq (partial_obj_ring cstate) of
        Inl err \<Rightarrow> (0, cstate, w)
      | Inr (junk, vnum, ring) \<Rightarrow>
          flush_partial_loop (cstate\<lparr>partial_obj_ring := ring\<rparr>)
            (release_obj_cb (lstate cstate) (app_cookie cstate) junk w))"
  by pat_completeness auto
termination
  by (relation "measure (\<lambda>(cstate, w). length (ring_elems (partial_obj_ring cstate)))")
     (auto simp: ring_2deq_def split: list.splits)

definition sstub_flush_objs ::
  "('obj, 'app, 'w) cstate_t \<Rightarrow> int \<Rightarrow> 'w \<Rightarrow> int \<times> ('obj, 'app, 'w) cstate_t \<times> 'w" where
  "sstub_flush_objs cstate ver_no w =
     (case flush_complete_loop cstate w of (cs, w') \<Rightarrow> flush_partial_loop cs w')"

section \<open>Storage stub: outgoing control messages (sstub\_api.c)\<close>

text \<open>
  The control header and the two sub-headers are declared in socket\_trans.h, which is
  not among the sources; the records hold the fields that sstub\_api.c assigns. The
  command codes and the three \<^verbatim>\<open>sizeof\<close> values come from the same missing header
  and are parameters (\<open>socket_trans\<close>). The platform is LP64, the one the spec's note
  is about: a C \<^verbatim>\<open>int\<close> is a 32-bit word, a \<^verbatim>\<open>size_t\<close> and a pointer are 64-bit words,
  and \<^verbatim>\<open>NULL\<close> is 0. Converting an \<^verbatim>\<open>int\<close> to \<^verbatim>\<open>size_t\<close> extends its sign
  (\<open>scast\<close>); storing a \<^verbatim>\<open>size_t\<close> or a pointer into 32 bits keeps the low 32 bits
  (\<open>ucast\<close>). \<^verbatim>\<open>malloc\<close> is not modelled: the two blocks it returns are arguments of
  each function. \<^verbatim>\<open>htonl\<close> is the byte swap of a little-endian host. \<^verbatim>\<open>ENOSPC\<close> and
  \<^verbatim>\<open>ENOMEM\<close> are the values of Linux's errno.h.
\<close>

type_synonym byte = "8 word"

type_synonym c_int = "32 word"

type_synonym size_t = "64 word"

type_synonym sig_val_t = "byte list"

record control_header_t =
  generation_number :: "32 word"
  command :: "32 word"
  data_len :: "32 word"
  spare :: "32 word"

record get_obj_header_t =
  obj_sig :: sig_val_t

record dctl_subheader_t =
  sub_dctl_err :: "32 word"
  sub_dctl_opid :: "32 word"
  sub_dctl_plen :: "32 word"
  sub_dctl_dlen :: "32 word"
  sub_dctl_data :: "byte list"

record sstub_heap =
  cheaders :: "addr \<rightharpoonup> control_header_t"
  get_obj_heads :: "addr \<rightharpoonup> get_obj_header_t"
  dctl_heads :: "addr \<rightharpoonup> dctl_subheader_t"

record socket_trans =
  CNTL_CMD_GET_OBJ :: "32 word"
  CNTL_CMD_LLEAFS_DONE :: "32 word"
  CNTL_CMD_LNODES_DONE :: "32 word"
  sizeof_get_obj_header :: size_t
  sizeof_dctl_subheader :: size_t
  sizeof_dctl_entry :: size_t

datatype c_abort = Assert_failed | Exit_1


definition ENOSPC :: c_int where
  "ENOSPC = 28"

definition htonl :: "32 word \<Rightarrow> 32 word" where
  "htonl x =
     push_bit 24 (x AND 0xFF) OR push_bit 8 (x AND 0xFF00) OR
     (drop_bit 8 x AND 0xFF00) OR (drop_bit 24 x AND 0xFF)"

text \<open>
  \<^verbatim>\<open>memcpy(dst, src, n)\<close>, as the bytes it writes: \<open>src i\<close> is the byte that memory
  holds \<open>i\<close> bytes after the source pointer, and the first \<open>n\<close> of them are copied.
  Memory does not end where the caller's array ends; what lies behind it is whatever
  \<open>src\<close> says. So the copy is defined on every call, as it is in the code, which
  checks nothing; a read that the machine would refuse is not modelled.
\<close>

definition memcpy :: "(nat \<Rightarrow> byte) \<Rightarrow> size_t \<Rightarrow> byte list" where
  "memcpy src n = map src [0..<unat n]"

text \<open>
  \<^verbatim>\<open>sstub_get_obj\<close> (lines 206-253). Both allocations are asserted to be non-null; the
  header is filled in, the signature copied into the sub-header, the flag set and the
  header's address put on the control ring. A ring error ends the process.
\<close>

definition sstub_get_obj ::
  "socket_trans \<Rightarrow> ('obj, 'app, 'w) cstate_t \<Rightarrow> sstub_heap \<Rightarrow> addr \<Rightarrow> addr \<Rightarrow> sig_val_t \<Rightarrow>
     c_abort + (int \<times> ('obj, 'app, 'w) cstate_t \<times> sstub_heap)" where
  "sstub_get_obj K cstate heap cheader shead sig =
     (if cheader = 0 then Inl Assert_failed
      else if shead = 0 then Inl Assert_failed
      else
        let hdr = \<lparr>generation_number = 0,
                   command = htonl (CNTL_CMD_GET_OBJ K),
                   data_len = htonl (ucast (sizeof_get_obj_header K)),
                   spare = ucast shead\<rparr>;
            heap' = heap\<lparr>cheaders := (cheaders heap)(cheader \<mapsto> hdr),
                         get_obj_heads := (get_obj_heads heap)(shead \<mapsto> \<lparr>obj_sig = sig\<rparr>)\<rparr>;
            cs = cstate\<lparr>flags := flags cstate \<union> {CSTATE_CONTROL_DATA}\<rparr>
        in case ring_enq (control_tx_ring cs) cheader of
             Inl err \<Rightarrow> (if err \<noteq> 0 then Inl Exit_1 else Inr (0, cs, heap'))
           | Inr ring \<Rightarrow> Inr (0, cs\<lparr>control_tx_ring := ring\<rparr>, heap'))"

text \<open>
  \<^verbatim>\<open>sstub_lleaf_response\<close> (lines 372-451) and \<^verbatim>\<open>sstub_lnode_response\<close> (lines
  453-531) differ in the command code only; \<open>dctl_list_response\<close> is their common body
  with the code as its first argument. \<^verbatim>\<open>err\<close>, \<^verbatim>\<open>num_ents\<close>, \<^verbatim>\<open>opid\<close>,
  \<^verbatim>\<open>dlen\<close> and \<^verbatim>\<open>tot_len\<close> are C \<^verbatim>\<open>int\<close>s. The product
  \<^verbatim>\<open>num_ents * sizeof(dctl_entry_t)\<close> and the sum \<^verbatim>\<open>sizeof(*shead) + dlen\<close> are
  computed in \<^verbatim>\<open>size_t\<close> and stored into an \<^verbatim>\<open>int\<close>, so they wrap. There is no
  check of \<^verbatim>\<open>num_ents\<close> against the caller's array: when \<^verbatim>\<open>err\<close> is 0 the
  \<^verbatim>\<open>memcpy\<close> copies \<^verbatim>\<open>(size_t) dlen\<close> bytes from \<^verbatim>\<open>data\<close>; otherwise the sub-header
  has no data bytes.
\<close>

definition dctl_list_response ::
  "32 word \<Rightarrow> socket_trans \<Rightarrow> ('obj, 'app, 'w) cstate_t \<Rightarrow> sstub_heap \<Rightarrow> addr \<Rightarrow> addr \<Rightarrow>
     c_int \<Rightarrow> c_int \<Rightarrow> (nat \<Rightarrow> byte) \<Rightarrow> c_int \<Rightarrow>
     c_abort + (int \<times> ('obj, 'app, 'w) cstate_t \<times> sstub_heap)" where
  "dctl_list_response cmd K cstate heap cheader shead err num_ents data opid =
     (let dlen0 = (ucast ((scast num_ents :: size_t) * sizeof_dctl_entry K) :: c_int);
          tot_len = (if err = 0
                     then (ucast (sizeof_dctl_subheader K + (scast dlen0 :: size_t)) :: c_int)
                     else (ucast (sizeof_dctl_subheader K) :: c_int));
          dlen = (if err = 0 then dlen0 else if err \<noteq> ENOSPC then 0 else dlen0)
      in
      if cheader = 0 then Inl Exit_1
      else if shead = 0 then Inl Exit_1
      else
        let hdr = \<lparr>generation_number = 0,
                   command = htonl cmd,
                   data_len = htonl tot_len,
                   spare = ucast shead\<rparr>;
            sub = \<lparr>sub_dctl_err = htonl err,
                   sub_dctl_opid = htonl opid,
                   sub_dctl_plen = htonl 0,
                   sub_dctl_dlen = htonl dlen,
                   sub_dctl_data = (if err = 0 then memcpy data (scast dlen) else [])\<rparr>;
            heap' = heap\<lparr>cheaders := (cheaders heap)(cheader \<mapsto> hdr),
                         dctl_heads := (dctl_heads heap)(shead \<mapsto> sub)\<rparr>;
            cs = cstate\<lparr>flags := flags cstate \<union> {CSTATE_CONTROL_DATA}\<rparr>
        in case ring_enq (control_tx_ring cs) cheader of
             Inl eno \<Rightarrow> (if eno \<noteq> 0 then Inl Exit_1 else Inr (0, cs, heap'))
           | Inr ring \<Rightarrow> Inr (0, cs\<lparr>control_tx_ring := ring\<rparr>, heap'))"

definition sstub_lleaf_response ::
  "socket_trans \<Rightarrow> ('obj, 'app, 'w) cstate_t \<Rightarrow> sstub_heap \<Rightarrow> addr \<Rightarrow> addr \<Rightarrow>
     c_int \<Rightarrow> c_int \<Rightarrow> (nat \<Rightarrow> byte) \<Rightarrow> c_int \<Rightarrow>
     c_abort + (int \<times> ('obj, 'app, 'w) cstate_t \<times> sstub_heap)" where
  "sstub_lleaf_response K = dctl_list_response (CNTL_CMD_LLEAFS_DONE K) K"

definition sstub_lnode_response ::
  "socket_trans \<Rightarrow> ('obj, 'app, 'w) cstate_t \<Rightarrow> sstub_heap \<Rightarrow> addr \<Rightarrow> addr \<Rightarrow>
     c_int \<Rightarrow> c_int \<Rightarrow> (nat \<Rightarrow> byte) \<Rightarrow> c_int \<Rightarrow>
     c_abort + (int \<times> ('obj, 'app, 'w) cstate_t \<times> sstub_heap)" where
  "sstub_lnode_response K = dctl_list_response (CNTL_CMD_LNODES_DONE K) K"

section \<open>Control-tree requests on the debug socket (ls\_dctl.c)\<close>















section \<open>Search context (lib\_search\_priv.h)\<close>

text \<open>
  The two watermark constants (lines 12-13), the size of the object queues (line 66),
  the status enumeration (lines 47-53) and the scalar fields of \<^verbatim>\<open>search_context_t\<close>
  (lines 68-83); the pointers to the device list, the rings and the cookies are left
  out.
\<close>

definition LS_OBJ_PEND_HW :: int where
  "LS_OBJ_PEND_HW = 60"

definition LS_OBJ_PEND_LW :: int where
  "LS_OBJ_PEND_LW = 55"

definition OBJ_QUEUE_SIZE :: int where
  "OBJ_QUEUE_SIZE = 1024"

datatype search_status_t = SS_ACTIVE | SS_DONE | SS_EMPTY | SS_SHUTDOWN | SS_IDLE

record search_context =
  cur_search_id :: int
  cur_status :: search_status_t
  pend_hw :: int
  pend_lw :: int
  pend_count :: int

text \<open>
  The code that initialises a context, the odisk reader and \<^verbatim>\<open>release_obj\<close> are not
  among the sources: the header only declares the fields. What follows is the
  backpressure of section 4.E of the spec, as a machine whose events are the steps of
  the one odisk reader of a search and the releases by the client.
\<close>

text \<open>
  Modelled from the spec: the initialisation of a search context. Section 4.E gives the
  state machine's first state \<^verbatim>\<open>IDLE\<close> and the defaults of the two watermarks
  (``default 60'', ``default 55''); nothing is in flight yet.
\<close>

definition new_search_context :: "int \<Rightarrow> search_context" where
  "new_search_context search_id =
     \<lparr>cur_search_id = search_id, cur_status = SS_IDLE,
      pend_hw = LS_OBJ_PEND_HW, pend_lw = LS_OBJ_PEND_LW, pend_count = 0\<rparr>"








section \<open>Object cache: the insert protocol (lib\_ocache.h)\<close>

text \<open>
  A signature is an array of 16 bytes (\<^verbatim>\<open>char attr_sig[16]\<close>, \<^verbatim>\<open>char iattr_sig[16]\<close>,
  \<^verbatim>\<open>char fsig[16]\<close>). \<^verbatim>\<open>cache_attr_entry\<close> (lines 29-34), \<^verbatim>\<open>cache_attr_set\<close>
  (lines 36-40, an array and its length: a list), the four entry tags (lines 88-91) and
  \<^verbatim>\<open>cache_ring_entry\<close> (lines 93-108, a type tag, the object id and a union: a datatype
  with one constructor per tag).
\<close>

record cache_attr_entry =
  name_len :: nat
  attr_name :: string
  attr_sig :: sig_val_t

type_synonym cache_attr_set = "cache_attr_entry list"

definition INSERT_START :: int where
  "INSERT_START = 0"

definition INSERT_IATTR :: int where
  "INSERT_IATTR = 1"

definition INSERT_OATTR :: int where
  "INSERT_OATTR = 2"

definition INSERT_END :: int where
  "INSERT_END = 3"

datatype cache_ring_entry =
  Start_entry "64 word" addr
| Iattr_entry "64 word" cache_attr_entry
| Oattr_entry "64 word" cache_attr_entry
| End_entry "64 word" int

fun entry_type :: "cache_ring_entry \<Rightarrow> int" where
  "entry_type (Start_entry oid table) = INSERT_START"
| "entry_type (Iattr_entry oid a) = INSERT_IATTR"
| "entry_type (Oattr_entry oid a) = INSERT_OATTR"
| "entry_type (End_entry oid r) = INSERT_END"

fun entry_oid :: "cache_ring_entry \<Rightarrow> 64 word" where
  "entry_oid (Start_entry oid table) = oid"
| "entry_oid (Iattr_entry oid a) = oid"
| "entry_oid (Oattr_entry oid a) = oid"
| "entry_oid (End_entry oid r) = oid"

text \<open>
  The producer of the insert stream (\<^verbatim>\<open>ocache_add_start\<close>, \<^verbatim>\<open>ocache_add_end\<close> and the
  attribute hooks) and the persistence thread that consumes it are not among the
  sources; the header declares the entry type and two of the functions. What follows
  is the insert protocol of section 4.C of the spec.
\<close>

text \<open>
  Modelled from the spec: the record that the persistence thread materializes,
  ``\<^verbatim>\<open>{ oid, iattr_sig, result, iattr, oattr, eval_count, hit_count }\<close>'': the
  \<^verbatim>\<open>cache_obj_s\<close> of lines 42-53 without its counters and its list link, which the
  stream does not carry.
\<close>

record cache_obj =
  oid :: "64 word"
  iattr_sig :: sig_val_t
  result :: int
  iattr :: cache_attr_set
  oattr :: cache_attr_set

text \<open>
  Modelled from the spec: the entries that one insert puts on the ring, ``a stream of
  typed ring entries keyed by oid: \<^verbatim>\<open>INSERT_START(table) -> INSERT_IATTR(attr)* ->
  INSERT_OATTR(attr)* -> INSERT_END(result)\<close>''.
\<close>

definition insert_stream ::
  "64 word \<Rightarrow> addr \<Rightarrow> cache_attr_set \<Rightarrow> cache_attr_set \<Rightarrow> int \<Rightarrow> cache_ring_entry list" where
  "insert_stream obj_id table ins outs res =
     Start_entry obj_id table # map (Iattr_entry obj_id) ins @ map (Oattr_entry obj_id) outs @
     [End_entry obj_id res]"

text \<open>
  Modelled from the spec: the insert that the persistence thread is building,
  ``\<^verbatim>\<open>add_start\<close> publishes a pending record; subsequent \<^verbatim>\<open>add_iattr\<close> /
  \<^verbatim>\<open>add_oattr\<close> events stream into an in-memory builder''.
\<close>

record pending_insert =
  pend_oid :: "64 word"
  pend_table :: addr
  pend_iattr :: cache_attr_set
  pend_oattr :: cache_attr_set

text \<open>
  Modelled from the spec: the state of the persistence thread, the insert in progress
  (if any) and the records materialized so far, each with the table it belongs to.
\<close>

record ocache_state =
  pending :: "pending_insert option"
  materialized :: "(addr \<times> cache_obj) list"

text \<open>
  Modelled from the spec: the persistence thread's handling of one entry. ``The
  persistence thread consumes this stream in order; a partial stream due to crash is
  truncated (the record is not materialized unless \<^verbatim>\<open>INSERT_END\<close> is seen)'', and
  ``commit: compute \<^verbatim>\<open>iattr_sig\<close> from the accumulated iattr set'' (the digest of an
  attribute set is the parameter \<open>sigf\<close>). A start entry opens a builder; an
  attribute or end entry for another object id than the builder's is dropped.
\<close>

fun ocache_consume ::
  "(cache_attr_set \<Rightarrow> sig_val_t) \<Rightarrow> ocache_state \<Rightarrow> cache_ring_entry \<Rightarrow> ocache_state" where
  "ocache_consume sigf st (Start_entry obj_id table) =
     st\<lparr>pending := Some \<lparr>pend_oid = obj_id, pend_table = table, pend_iattr = [], pend_oattr = []\<rparr>\<rparr>"
| "ocache_consume sigf st (Iattr_entry obj_id a) =
     (case pending st of
        None \<Rightarrow> st
      | Some p \<Rightarrow>
          if pend_oid p = obj_id then st\<lparr>pending := Some (p\<lparr>pend_iattr := pend_iattr p @ [a]\<rparr>)\<rparr>
          else st)"
| "ocache_consume sigf st (Oattr_entry obj_id a) =
     (case pending st of
        None \<Rightarrow> st
      | Some p \<Rightarrow>
          if pend_oid p = obj_id then st\<lparr>pending := Some (p\<lparr>pend_oattr := pend_oattr p @ [a]\<rparr>)\<rparr>
          else st)"
| "ocache_consume sigf st (End_entry obj_id res) =
     (case pending st of
        None \<Rightarrow> st
      | Some p \<Rightarrow>
          if pend_oid p = obj_id then
            st\<lparr>pending := None,
               materialized := materialized st @
                 [(pend_table p,
                   \<lparr>oid = obj_id, iattr_sig = sigf (pend_iattr p), result = res,
                    iattr = pend_iattr p, oattr = pend_oattr p\<rparr>)]\<rparr>
          else st)"

text \<open>
  Modelled from the spec: the persistence thread's loop over the entries of the ring,
  in ring order.
\<close>

definition ocache_consume_all ::
  "(cache_attr_set \<Rightarrow> sig_val_t) \<Rightarrow> ocache_state \<Rightarrow> cache_ring_entry list \<Rightarrow> ocache_state" where
  "ocache_consume_all sigf = foldl (ocache_consume sigf)"

section \<open>Properties of the storage stub's object rings\<close>

declare flush_complete_loop.simps [simp del]

declare flush_partial_loop.simps [simp del]

text \<open>
  Claim C7. \<^verbatim>\<open>sstub_send_obj(cookie, obj, ver, complete)\<close> puts the pair (obj, ver) at
  the tail of the complete-object ring when \<^verbatim>\<open>complete\<close> is nonzero and of the
  partial-object ring otherwise, and returns 0, provided the chosen ring has room. When
  the chosen ring is full the call returns the ring's nonzero error code and neither
  ring changes. In both cases the flag \<^verbatim>\<open>CSTATE_OBJ_DATA\<close> is set.
\<close>

theorem sstub_send_obj_enqueues:
  "(complete \<noteq> 0 \<and>
    length (ring_elems (complete_obj_ring cstate)) < ring_size (complete_obj_ring cstate) \<longrightarrow>
      sstub_send_obj cstate obj ver_no complete =
        (0, cstate\<lparr>flags := flags cstate \<union> {CSTATE_OBJ_DATA},
                   complete_obj_ring := (complete_obj_ring cstate)
                     \<lparr>ring_elems := ring_elems (complete_obj_ring cstate) @ [(obj, ver_no)]\<rparr>\<rparr>)) \<and>
   (complete = 0 \<and>
    length (ring_elems (partial_obj_ring cstate)) < ring_size (partial_obj_ring cstate) \<longrightarrow>
      sstub_send_obj cstate obj ver_no complete =
        (0, cstate\<lparr>flags := flags cstate \<union> {CSTATE_OBJ_DATA},
                   partial_obj_ring := (partial_obj_ring cstate)
                     \<lparr>ring_elems := ring_elems (partial_obj_ring cstate) @ [(obj, ver_no)]\<rparr>\<rparr>)) \<and>
   (complete \<noteq> 0 \<and>
    ring_size (complete_obj_ring cstate) \<le> length (ring_elems (complete_obj_ring cstate)) \<longrightarrow>
      ring_2enq (complete_obj_ring cstate) obj ver_no = Inl RING_ERR \<and> RING_ERR \<noteq> 0 \<and>
      sstub_send_obj cstate obj ver_no complete =
        (RING_ERR, cstate\<lparr>flags := flags cstate \<union> {CSTATE_OBJ_DATA}\<rparr>)) \<and>
   (complete = 0 \<and>
    ring_size (partial_obj_ring cstate) \<le> length (ring_elems (partial_obj_ring cstate)) \<longrightarrow>
      ring_2enq (partial_obj_ring cstate) obj ver_no = Inl RING_ERR \<and> RING_ERR \<noteq> 0 \<and>
      sstub_send_obj cstate obj ver_no complete =
        (RING_ERR, cstate\<lparr>flags := flags cstate \<union> {CSTATE_OBJ_DATA}\<rparr>))"
  by (simp add: sstub_send_obj_def ring_2enq_def RING_ERR_def Let_def)

text \<open>
  A connection whose complete ring has room for one more pair and whose partial ring is
  full: a complete object is enqueued behind the one already there, a partial object is
  refused with the ring's code.
\<close>

theorem sstub_send_obj_witness:
  "sstub_send_obj
     \<lparr>flags = {},
      lstate = \<lparr>release_obj_cb = (\<lambda>(app :: nat) (obj :: nat) (w :: nat list). w @ [obj])\<rparr>,
      app_cookie = 0,
      complete_obj_ring = \<lparr>ring_size = 2, ring_elems = [(11, 1)]\<rparr>,
      partial_obj_ring = \<lparr>ring_size = 1, ring_elems = [(13, 1)]\<rparr>,
      control_tx_ring = \<lparr>ring_size = 4, ring_elems = []\<rparr>\<rparr> 12 7 1
   = (0,
      \<lparr>flags = {CSTATE_OBJ_DATA},
       lstate = \<lparr>release_obj_cb = (\<lambda>(app :: nat) (obj :: nat) (w :: nat list). w @ [obj])\<rparr>,
       app_cookie = 0,
       complete_obj_ring = \<lparr>ring_size = 2, ring_elems = [(11, 1), (12, 7)]\<rparr>,
       partial_obj_ring = \<lparr>ring_size = 1, ring_elems = [(13, 1)]\<rparr>,
       control_tx_ring = \<lparr>ring_size = 4, ring_elems = []\<rparr>\<rparr>) \<and>
   sstub_send_obj
     \<lparr>flags = {},
      lstate = \<lparr>release_obj_cb = (\<lambda>(app :: nat) (obj :: nat) (w :: nat list). w @ [obj])\<rparr>,
      app_cookie = 0,
      complete_obj_ring = \<lparr>ring_size = 2, ring_elems = [(11, 1)]\<rparr>,
      partial_obj_ring = \<lparr>ring_size = 1, ring_elems = [(13, 1)]\<rparr>,
      control_tx_ring = \<lparr>ring_size = 4, ring_elems = []\<rparr>\<rparr> 14 7 0
   = (1,
      \<lparr>flags = {CSTATE_OBJ_DATA},
       lstate = \<lparr>release_obj_cb = (\<lambda>(app :: nat) (obj :: nat) (w :: nat list). w @ [obj])\<rparr>,
       app_cookie = 0,
       complete_obj_ring = \<lparr>ring_size = 2, ring_elems = [(11, 1)]\<rparr>,
       partial_obj_ring = \<lparr>ring_size = 1, ring_elems = [(13, 1)]\<rparr>,
       control_tx_ring = \<lparr>ring_size = 4, ring_elems = []\<rparr>\<rparr>)"
proof -
  let ?cs = "\<lparr>flags = {},
      lstate = \<lparr>release_obj_cb = (\<lambda>(app :: nat) (obj :: nat) (w :: nat list). w @ [obj])\<rparr>,
      app_cookie = 0 :: nat,
      complete_obj_ring = \<lparr>ring_size = 2, ring_elems = [(11 :: nat, 1 :: int)]\<rparr>,
      partial_obj_ring = \<lparr>ring_size = 1, ring_elems = [(13 :: nat, 1 :: int)]\<rparr>,
      control_tx_ring = \<lparr>ring_size = 4, ring_elems = []\<rparr>\<rparr>"
  show ?thesis
    using sstub_send_obj_enqueues [of 1 ?cs 12 7] sstub_send_obj_enqueues [of 0 ?cs 14 7]
    by (simp add: RING_ERR_def)
qed

lemma flush_complete_loop_drains:
  "ring_elems (complete_obj_ring cstate) = xs \<Longrightarrow>
   flush_complete_loop cstate w =
     (cstate\<lparr>complete_obj_ring := (complete_obj_ring cstate)\<lparr>ring_elems := []\<rparr>\<rparr>,
      foldl (\<lambda>w obj. release_obj_cb (lstate cstate) (app_cookie cstate) obj w) w (map fst xs))"
proof (induction xs arbitrary: cstate w)
  case Nil
  then show ?case
    by (subst flush_complete_loop.simps) (simp add: ring_2deq_def)
next
  case (Cons x xs)
  obtain a b where x: "x = (a, b)" by (cases x)
  let ?cs = "cstate\<lparr>complete_obj_ring := (complete_obj_ring cstate)\<lparr>ring_elems := xs\<rparr>\<rparr>"
  have "flush_complete_loop cstate w =
        flush_complete_loop ?cs (release_obj_cb (lstate cstate) (app_cookie cstate) a w)"
    using Cons.prems x by (subst flush_complete_loop.simps) (simp add: ring_2deq_def)
  also have "\<dots> = (?cs\<lparr>complete_obj_ring := (complete_obj_ring ?cs)\<lparr>ring_elems := []\<rparr>\<rparr>,
      foldl (\<lambda>w obj. release_obj_cb (lstate ?cs) (app_cookie ?cs) obj w)
        (release_obj_cb (lstate cstate) (app_cookie cstate) a w) (map fst xs))"
    by (rule Cons.IH) simp
  finally show ?case using x by simp
qed

lemma flush_partial_loop_drains:
  "ring_elems (partial_obj_ring cstate) = xs \<Longrightarrow>
   flush_partial_loop cstate w =
     (0, cstate\<lparr>partial_obj_ring := (partial_obj_ring cstate)\<lparr>ring_elems := []\<rparr>\<rparr>,
      foldl (\<lambda>w obj. release_obj_cb (lstate cstate) (app_cookie cstate) obj w) w (map fst xs))"
proof (induction xs arbitrary: cstate w)
  case Nil
  then show ?case
    by (subst flush_partial_loop.simps) (simp add: ring_2deq_def)
next
  case (Cons x xs)
  obtain a b where x: "x = (a, b)" by (cases x)
  let ?cs = "cstate\<lparr>partial_obj_ring := (partial_obj_ring cstate)\<lparr>ring_elems := xs\<rparr>\<rparr>"
  have "flush_partial_loop cstate w =
        flush_partial_loop ?cs (release_obj_cb (lstate cstate) (app_cookie cstate) a w)"
    using Cons.prems x by (subst flush_partial_loop.simps) (simp add: ring_2deq_def)
  also have "\<dots> = (0, ?cs\<lparr>partial_obj_ring := (partial_obj_ring ?cs)\<lparr>ring_elems := []\<rparr>\<rparr>,
      foldl (\<lambda>w obj. release_obj_cb (lstate ?cs) (app_cookie ?cs) obj w)
        (release_obj_cb (lstate cstate) (app_cookie cstate) a w) (map fst xs))"
    by (rule Cons.IH) simp
  finally show ?case using x by simp
qed

text \<open>
  Claim C8. \<^verbatim>\<open>sstub_flush_objs(cookie, ver_no)\<close> returns 0 and leaves both object rings
  empty; the release callback has been applied, with the connection's application
  cookie, once to every object that was in the complete ring and then once to every
  object that was in the partial ring, in ring order, whatever version number each
  object was queued with and whatever \<^verbatim>\<open>ver_no\<close> is. Nothing else of the connection
  state changes.
\<close>

theorem sstub_flush_objs_drains:
  "sstub_flush_objs cstate ver_no w =
     (0,
      cstate\<lparr>complete_obj_ring := (complete_obj_ring cstate)\<lparr>ring_elems := []\<rparr>,
             partial_obj_ring := (partial_obj_ring cstate)\<lparr>ring_elems := []\<rparr>\<rparr>,
      foldl (\<lambda>w obj. release_obj_cb (lstate cstate) (app_cookie cstate) obj w) w
        (map fst (ring_elems (complete_obj_ring cstate)) @
         map fst (ring_elems (partial_obj_ring cstate))))"
  by (simp add: sstub_flush_objs_def flush_complete_loop_drains [OF refl]
      flush_partial_loop_drains [OF refl])

text \<open>
  A flush for version 2 of a connection that holds objects 11 and 12 (versions 1 and 2)
  in the complete ring and object 13 (version 1) in the partial ring; the callback
  appends the object it is given to a log.
\<close>

theorem sstub_flush_objs_witness:
  "sstub_flush_objs
     \<lparr>flags = {CSTATE_OBJ_DATA},
      lstate = \<lparr>release_obj_cb = (\<lambda>(app :: nat) (obj :: nat) (w :: nat list). w @ [obj])\<rparr>,
      app_cookie = 0,
      complete_obj_ring = \<lparr>ring_size = 4, ring_elems = [(11, 1), (12, 2)]\<rparr>,
      partial_obj_ring = \<lparr>ring_size = 4, ring_elems = [(13, 1)]\<rparr>,
      control_tx_ring = \<lparr>ring_size = 4, ring_elems = []\<rparr>\<rparr> 2 []
   = (0,
      \<lparr>flags = {CSTATE_OBJ_DATA},
       lstate = \<lparr>release_obj_cb = (\<lambda>(app :: nat) (obj :: nat) (w :: nat list). w @ [obj])\<rparr>,
       app_cookie = 0,
       complete_obj_ring = \<lparr>ring_size = 4, ring_elems = []\<rparr>,
       partial_obj_ring = \<lparr>ring_size = 4, ring_elems = []\<rparr>,
       control_tx_ring = \<lparr>ring_size = 4, ring_elems = []\<rparr>\<rparr>,
      [11, 12, 13])"
  by (simp add: sstub_flush_objs_drains)

section \<open>The pointer stored in the spare field\<close>

lemma ucast_down_unat: "unat (ucast (p :: 64 word) :: 32 word) = unat p mod 2 ^ 32"
  by (simp add: unsigned_ucast_eq take_bit_eq_mod)

lemma ucast_roundtrip_unat:
  "unat (ucast (ucast (p :: 64 word) :: 32 word) :: 64 word) = unat p mod 2 ^ 32"
  by (simp add: unsigned_ucast_eq unsigned_take_bit_eq) (simp add: take_bit_eq_mod)

lemma ucast_roundtrip_iff:
  "((ucast (ucast (p :: 64 word) :: 32 word) :: 64 word) = p) = (unat p < 2 ^ 32)"
proof
  assume h: "(ucast (ucast p :: 32 word) :: 64 word) = p"
  have "unat (ucast (ucast p :: 32 word) :: 64 word) < 2 ^ 32"
    by (simp only: ucast_roundtrip_unat) simp
  with h show "unat p < 2 ^ 32" by simp
next
  assume "unat p < 2 ^ 32"
  then have "unat (ucast (ucast p :: 32 word) :: 64 word) = unat p"
    by (simp only: ucast_roundtrip_unat) simp
  then show "(ucast (ucast p :: 32 word) :: 64 word) = p"
    by (simp only: word_unat_eq_iff)
qed

text \<open>
  When the three functions return: exactly when both blocks were allocated and the
  control ring has room, whatever the error code, the entry count and the memory at
  \<^verbatim>\<open>data\<close> are.
\<close>

lemma sstub_get_obj_returns:
  "(\<exists>r cs' heap'. sstub_get_obj K cstate heap cheader shead sig = Inr (r, cs', heap')) =
     (cheader \<noteq> 0 \<and> shead \<noteq> 0 \<and>
      length (ring_elems (control_tx_ring cstate)) < ring_size (control_tx_ring cstate))"
  by (auto simp: sstub_get_obj_def ring_enq_def RING_ERR_def Let_def)

lemma dctl_list_response_returns:
  "(\<exists>r cs' heap'.
      dctl_list_response cmd K cstate heap cheader shead err num_ents data opid =
        Inr (r, cs', heap')) =
     (cheader \<noteq> 0 \<and> shead \<noteq> 0 \<and>
      length (ring_elems (control_tx_ring cstate)) < ring_size (control_tx_ring cstate))"
  by (auto simp: dctl_list_response_def ring_enq_def RING_ERR_def Let_def)

lemma sstub_get_obj_spare:
  assumes "sstub_get_obj K cstate heap cheader shead sig = Inr (r, cs', heap')"
  shows "\<exists>h. cheaders heap' cheader = Some h \<and> spare h = ucast shead \<and>
             ring_elems (control_tx_ring cs') = ring_elems (control_tx_ring cstate) @ [cheader]"
  using assms
  by (auto simp: sstub_get_obj_def ring_enq_def RING_ERR_def Let_def split: if_splits)

lemma dctl_list_response_spare:
  assumes "dctl_list_response cmd K cstate heap cheader shead err num_ents data opid =
             Inr (r, cs', heap')"
  shows "\<exists>h. cheaders heap' cheader = Some h \<and> spare h = ucast shead \<and>
             ring_elems (control_tx_ring cs') = ring_elems (control_tx_ring cstate) @ [cheader]"
  using assms
  by (auto simp: dctl_list_response_def ring_enq_def RING_ERR_def Let_def split: if_splits)

text \<open>
  Claim C9. Whenever \<^verbatim>\<open>sstub_get_obj\<close>, \<^verbatim>\<open>sstub_lleaf_response\<close> or
  \<^verbatim>\<open>sstub_lnode_response\<close> returns, the control header it has put on the control ring
  has its 32-bit \<^verbatim>\<open>spare\<close> field equal to the sub-header's address cut down to 32
  bits: read as a number, \<^verbatim>\<open>spare\<close> is the address modulo \<open>2 ^ 32\<close>, and widening
  it again gives the address back exactly when the address is below \<open>2 ^ 32\<close>.
\<close>

theorem spare_is_truncated_pointer:
  "(sstub_get_obj K cstate heap cheader shead sig = Inr (r, cs', heap') \<or>
    sstub_lleaf_response K cstate heap cheader shead err num_ents data opid = Inr (r, cs', heap') \<or>
    sstub_lnode_response K cstate heap cheader shead err num_ents data opid = Inr (r, cs', heap')) \<longrightarrow>
   (\<exists>h. cheaders heap' cheader = Some h \<and>
        ring_elems (control_tx_ring cs') = ring_elems (control_tx_ring cstate) @ [cheader] \<and>
        spare h = ucast shead \<and>
        unat (spare h) = unat shead mod 2 ^ 32 \<and>
        ((ucast (spare h) = shead) = (unat shead < 2 ^ 32)))"
proof (intro impI)
  assume "sstub_get_obj K cstate heap cheader shead sig = Inr (r, cs', heap') \<or>
    sstub_lleaf_response K cstate heap cheader shead err num_ents data opid = Inr (r, cs', heap') \<or>
    sstub_lnode_response K cstate heap cheader shead err num_ents data opid = Inr (r, cs', heap')"
  then obtain h where h: "cheaders heap' cheader = Some h" "spare h = ucast shead"
      "ring_elems (control_tx_ring cs') = ring_elems (control_tx_ring cstate) @ [cheader]"
    unfolding sstub_lleaf_response_def sstub_lnode_response_def
    using sstub_get_obj_spare dctl_list_response_spare by metis
  show "\<exists>h. cheaders heap' cheader = Some h \<and>
        ring_elems (control_tx_ring cs') = ring_elems (control_tx_ring cstate) @ [cheader] \<and>
        spare h = ucast shead \<and>
        unat (spare h) = unat shead mod 2 ^ 32 \<and>
        ((ucast (spare h) = shead) = (unat shead < 2 ^ 32))"
    using h ucast_down_unat [of shead] ucast_roundtrip_iff [of shead] by simp
qed

text \<open>
  The three functions on an empty heap with the header allocated at \<open>0x1000\<close> and the
  sub-header at \<open>0x7F0012345678\<close>, an address that needs 47 bits. The leaf list is
  answered for \<open>2 ^ 30\<close> entries of 132 bytes, a product that wraps to an \<^verbatim>\<open>int\<close> of 0,
  the node list for 2 entries. Each call returns 0, and the header on the ring holds
  \<open>0x12345678\<close>, from which the address cannot be recovered.
\<close>

theorem spare_is_truncated_pointer_witness:
  "(\<exists>cs' heap'.
      sstub_get_obj
        \<lparr>CNTL_CMD_GET_OBJ = 20, CNTL_CMD_LLEAFS_DONE = 21, CNTL_CMD_LNODES_DONE = 22,
         sizeof_get_obj_header = 16, sizeof_dctl_subheader = 16, sizeof_dctl_entry = 132\<rparr>
        \<lparr>flags = {},
         lstate = \<lparr>release_obj_cb = (\<lambda>(app :: nat) (obj :: nat) (w :: nat list). w @ [obj])\<rparr>,
         app_cookie = 0,
         complete_obj_ring = \<lparr>ring_size = 4, ring_elems = []\<rparr>,
         partial_obj_ring = \<lparr>ring_size = 4, ring_elems = []\<rparr>,
         control_tx_ring = \<lparr>ring_size = 4, ring_elems = []\<rparr>\<rparr>
        \<lparr>cheaders = Map.empty, get_obj_heads = Map.empty, dctl_heads = Map.empty\<rparr>
        0x1000 0x7F0012345678 (replicate 16 0) = Inr (0, cs', heap') \<and>
      ring_elems (control_tx_ring cs') = [0x1000] \<and>
      map_option spare (cheaders heap' 0x1000) = Some 0x12345678) \<and>
   (\<exists>cs' heap'.
      sstub_lleaf_response
        \<lparr>CNTL_CMD_GET_OBJ = 20, CNTL_CMD_LLEAFS_DONE = 21, CNTL_CMD_LNODES_DONE = 22,
         sizeof_get_obj_header = 16, sizeof_dctl_subheader = 16, sizeof_dctl_entry = 132\<rparr>
        \<lparr>flags = {},
         lstate = \<lparr>release_obj_cb = (\<lambda>(app :: nat) (obj :: nat) (w :: nat list). w @ [obj])\<rparr>,
         app_cookie = 0,
         complete_obj_ring = \<lparr>ring_size = 4, ring_elems = []\<rparr>,
         partial_obj_ring = \<lparr>ring_size = 4, ring_elems = []\<rparr>,
         control_tx_ring = \<lparr>ring_size = 4, ring_elems = []\<rparr>\<rparr>
        \<lparr>cheaders = Map.empty, get_obj_heads = Map.empty, dctl_heads = Map.empty\<rparr>
        0x1000 0x7F0012345678 0 0x40000000 (\<lambda>i. 0) 9 = Inr (0, cs', heap') \<and>
      ring_elems (control_tx_ring cs') = [0x1000] \<and>
      map_option spare (cheaders heap' 0x1000) = Some 0x12345678) \<and>
   (\<exists>cs' heap'.
      sstub_lnode_response
        \<lparr>CNTL_CMD_GET_OBJ = 20, CNTL_CMD_LLEAFS_DONE = 21, CNTL_CMD_LNODES_DONE = 22,
         sizeof_get_obj_header = 16, sizeof_dctl_subheader = 16, sizeof_dctl_entry = 132\<rparr>
        \<lparr>flags = {},
         lstate = \<lparr>release_obj_cb = (\<lambda>(app :: nat) (obj :: nat) (w :: nat list). w @ [obj])\<rparr>,
         app_cookie = 0,
         complete_obj_ring = \<lparr>ring_size = 4, ring_elems = []\<rparr>,
         partial_obj_ring = \<lparr>ring_size = 4, ring_elems = []\<rparr>,
         control_tx_ring = \<lparr>ring_size = 4, ring_elems = []\<rparr>\<rparr>
        \<lparr>cheaders = Map.empty, get_obj_heads = Map.empty, dctl_heads = Map.empty\<rparr>
        0x1000 0x7F0012345678 0 2 (\<lambda>i. 0) 9 = Inr (0, cs', heap') \<and>
      ring_elems (control_tx_ring cs') = [0x1000] \<and>
      map_option spare (cheaders heap' 0x1000) = Some 0x12345678) \<and>
   ucast (0x12345678 :: 32 word) \<noteq> (0x7F0012345678 :: addr)"
proof -
  let ?K = "\<lparr>CNTL_CMD_GET_OBJ = 20, CNTL_CMD_LLEAFS_DONE = 21, CNTL_CMD_LNODES_DONE = 22,
         sizeof_get_obj_header = 16, sizeof_dctl_subheader = 16, sizeof_dctl_entry = 132\<rparr>"
  let ?cs = "\<lparr>flags = {},
         lstate = \<lparr>release_obj_cb = (\<lambda>(app :: nat) (obj :: nat) (w :: nat list). w @ [obj])\<rparr>,
         app_cookie = 0 :: nat,
         complete_obj_ring = \<lparr>ring_size = 4, ring_elems = []\<rparr>,
         partial_obj_ring = \<lparr>ring_size = 4, ring_elems = []\<rparr>,
         control_tx_ring = \<lparr>ring_size = 4, ring_elems = []\<rparr>\<rparr>"
  let ?hp = "\<lparr>cheaders = Map.empty, get_obj_heads = Map.empty, dctl_heads = Map.empty\<rparr>"
  have tr: "(ucast (0x7F0012345678 :: addr) :: 32 word) = 0x12345678" by simp
  obtain c1 h1 where g: "sstub_get_obj ?K ?cs ?hp 0x1000 0x7F0012345678 (replicate 16 0) = Inr (0, c1, h1)"
    by (simp add: sstub_get_obj_def ring_enq_def Let_def)
  obtain c2 h2 where l: "sstub_lleaf_response ?K ?cs ?hp 0x1000 0x7F0012345678 0 0x40000000 (\<lambda>i. 0) 9 = Inr (0, c2, h2)"
    by (simp add: sstub_lleaf_response_def dctl_list_response_def ring_enq_def Let_def)
  obtain c3 h3 where n: "sstub_lnode_response ?K ?cs ?hp 0x1000 0x7F0012345678 0 2 (\<lambda>i. 0) 9 = Inr (0, c3, h3)"
    by (simp add: sstub_lnode_response_def dctl_list_response_def ring_enq_def Let_def)
  have 1: "ring_elems (control_tx_ring c1) = [0x1000] \<and>
           map_option spare (cheaders h1 0x1000) = Some 0x12345678"
    using spare_is_truncated_pointer [of ?K ?cs ?hp "0x1000" "0x7F0012345678" "replicate 16 0" 0 c1 h1] g tr
    by auto
  have 2: "ring_elems (control_tx_ring c2) = [0x1000] \<and>
           map_option spare (cheaders h2 0x1000) = Some 0x12345678"
    using spare_is_truncated_pointer [of ?K ?cs ?hp "0x1000" "0x7F0012345678" _ 0 c2 h2 0 "0x40000000" "\<lambda>i. 0" 9] l tr
    by auto
  have 3: "ring_elems (control_tx_ring c3) = [0x1000] \<and>
           map_option spare (cheaders h3 0x1000) = Some 0x12345678"
    using spare_is_truncated_pointer [of ?K ?cs ?hp "0x1000" "0x7F0012345678" _ 0 c3 h3 0 2 "\<lambda>i. 0" 9] n tr
    by auto
  have 4: "ucast (0x12345678 :: 32 word) \<noteq> (0x7F0012345678 :: addr)" by simp
  show ?thesis using g l n 1 2 3 4 by blast
qed

section \<open>Replies of the control-tree request handler\<close>




section \<open>Backpressure watermarks\<close>

text \<open>
  Claim C2. The default backpressure watermarks of a search context are exactly
  \<^verbatim>\<open>pend_hw = 60\<close> and \<^verbatim>\<open>pend_lw = 55\<close>: a new context carries the constants
  \<^verbatim>\<open>LS_OBJ_PEND_HW\<close> and \<^verbatim>\<open>LS_OBJ_PEND_LW\<close>, which are 60 and 55, with nothing in
  flight. So the low watermark lies below the high one, and the high one below the
  size of the object queues.
\<close>

theorem default_watermarks:
  "pend_hw (new_search_context search_id) = 60 \<and>
   pend_lw (new_search_context search_id) = 55 \<and>
   pend_count (new_search_context search_id) = 0 \<and>
   pend_hw (new_search_context search_id) = LS_OBJ_PEND_HW \<and>
   pend_lw (new_search_context search_id) = LS_OBJ_PEND_LW \<and>
   LS_OBJ_PEND_HW = 60 \<and> LS_OBJ_PEND_LW = 55 \<and>
   0 < LS_OBJ_PEND_LW \<and> LS_OBJ_PEND_LW < LS_OBJ_PEND_HW \<and> LS_OBJ_PEND_HW < OBJ_QUEUE_SIZE"
  by (simp add: new_search_context_def LS_OBJ_PEND_HW_def LS_OBJ_PEND_LW_def OBJ_QUEUE_SIZE_def)

section \<open>Backpressure\<close>









section \<open>The insert protocol of the object cache\<close>

lemma consume_all_Cons:
  "ocache_consume_all sigf st (e # es) = ocache_consume_all sigf (ocache_consume sigf st e) es"
  by (simp add: ocache_consume_all_def)

lemma consume_all_append:
  "ocache_consume_all sigf st (es @ fs) =
     ocache_consume_all sigf (ocache_consume_all sigf st es) fs"
  by (simp add: ocache_consume_all_def)

lemma consume_no_end:
  "entry_type e \<noteq> INSERT_END \<Longrightarrow> materialized (ocache_consume sigf st e) = materialized st"
  by (cases e) (auto simp: INSERT_END_def split: option.splits)

lemma consume_all_no_end:
  "\<forall>e \<in> set es. entry_type e \<noteq> INSERT_END \<Longrightarrow>
   materialized (ocache_consume_all sigf st es) = materialized st"
proof (induction es arbitrary: st)
  case Nil
  then show ?case by (simp add: ocache_consume_all_def)
next
  case (Cons e es)
  then show ?case by (simp add: consume_all_Cons consume_no_end)
qed

lemma consume_iattrs:
  "pending st = Some p \<Longrightarrow> pend_oid p = obj_id \<Longrightarrow>
   ocache_consume_all sigf st (map (Iattr_entry obj_id) ins) =
     st\<lparr>pending := Some (p\<lparr>pend_iattr := pend_iattr p @ ins\<rparr>)\<rparr>"
proof (induction ins arbitrary: st p)
  case Nil
  then show ?case by (simp add: ocache_consume_all_def)
next
  case (Cons a ins)
  let ?p = "p\<lparr>pend_iattr := pend_iattr p @ [a]\<rparr>"
  let ?st = "st\<lparr>pending := Some ?p\<rparr>"
  have "ocache_consume sigf st (Iattr_entry obj_id a) = ?st"
    using Cons.prems by simp
  moreover have "ocache_consume_all sigf ?st (map (Iattr_entry obj_id) ins) =
      ?st\<lparr>pending := Some (?p\<lparr>pend_iattr := pend_iattr ?p @ ins\<rparr>)\<rparr>"
    using Cons.prems by (intro Cons.IH) simp_all
  ultimately show ?case by (simp add: consume_all_Cons)
qed

lemma consume_oattrs:
  "pending st = Some p \<Longrightarrow> pend_oid p = obj_id \<Longrightarrow>
   ocache_consume_all sigf st (map (Oattr_entry obj_id) outs) =
     st\<lparr>pending := Some (p\<lparr>pend_oattr := pend_oattr p @ outs\<rparr>)\<rparr>"
proof (induction outs arbitrary: st p)
  case Nil
  then show ?case by (simp add: ocache_consume_all_def)
next
  case (Cons a outs)
  let ?p = "p\<lparr>pend_oattr := pend_oattr p @ [a]\<rparr>"
  let ?st = "st\<lparr>pending := Some ?p\<rparr>"
  have "ocache_consume sigf st (Oattr_entry obj_id a) = ?st"
    using Cons.prems by simp
  moreover have "ocache_consume_all sigf ?st (map (Oattr_entry obj_id) outs) =
      ?st\<lparr>pending := Some (?p\<lparr>pend_oattr := pend_oattr ?p @ outs\<rparr>)\<rparr>"
    using Cons.prems by (intro Cons.IH) simp_all
  ultimately show ?case by (simp add: consume_all_Cons)
qed

lemma consume_insert_stream:
  "ocache_consume_all sigf st (insert_stream obj_id table ins outs res) =
     st\<lparr>pending := None,
        materialized := materialized st @
          [(table, \<lparr>oid = obj_id, iattr_sig = sigf ins, result = res, iattr = ins, oattr = outs\<rparr>)]\<rparr>"
proof -
  let ?p0 = "\<lparr>pend_oid = obj_id, pend_table = table, pend_iattr = [], pend_oattr = []\<rparr>"
  let ?s1 = "st\<lparr>pending := Some ?p0\<rparr>"
  let ?s2 = "st\<lparr>pending := Some (?p0\<lparr>pend_iattr := ins\<rparr>)\<rparr>"
  let ?s3 = "st\<lparr>pending := Some (?p0\<lparr>pend_iattr := ins, pend_oattr := outs\<rparr>)\<rparr>"
  have 1: "ocache_consume sigf st (Start_entry obj_id table) = ?s1" by simp
  have 2: "ocache_consume_all sigf ?s1 (map (Iattr_entry obj_id) ins) = ?s2"
    using consume_iattrs [of ?s1 ?p0 obj_id sigf ins] by simp
  have 3: "ocache_consume_all sigf ?s2 (map (Oattr_entry obj_id) outs) = ?s3"
    using consume_oattrs [of ?s2 "?p0\<lparr>pend_iattr := ins\<rparr>" obj_id sigf outs] by simp
  have 4: "ocache_consume_all sigf ?s3 [End_entry obj_id res] =
      st\<lparr>pending := None,
        materialized := materialized st @
          [(table, \<lparr>oid = obj_id, iattr_sig = sigf ins, result = res, iattr = ins, oattr = outs\<rparr>)]\<rparr>"
    by (simp add: ocache_consume_all_def)
  have "ocache_consume_all sigf st (insert_stream obj_id table ins outs res) =
        ocache_consume_all sigf
          (ocache_consume_all sigf
            (ocache_consume_all sigf (ocache_consume sigf st (Start_entry obj_id table))
               (map (Iattr_entry obj_id) ins))
            (map (Oattr_entry obj_id) outs))
          [End_entry obj_id res]"
    by (simp only: insert_stream_def consume_all_Cons consume_all_append)
  also have "\<dots> = ocache_consume_all sigf ?s3 [End_entry obj_id res]"
    by (simp only: 1 2 3)
  finally show ?thesis by (simp only: 4)
qed

lemma insert_stream_types:
  "map entry_type (insert_stream obj_id table ins outs res) =
     INSERT_START # replicate (length ins) INSERT_IATTR @
     replicate (length outs) INSERT_OATTR @ [INSERT_END]"
  by (simp add: insert_stream_def o_def map_replicate_const)

lemma insert_stream_oids:
  "\<forall>e \<in> set (insert_stream obj_id table ins outs res). entry_oid e = obj_id"
  by (auto simp: insert_stream_def)

lemma insert_stream_prefix_no_end:
  assumes "n < length (insert_stream obj_id table ins outs res)"
  shows "\<forall>e \<in> set (take n (insert_stream obj_id table ins outs res)). entry_type e \<noteq> INSERT_END"
proof -
  let ?body = "Start_entry obj_id table # map (Iattr_entry obj_id) ins @ map (Oattr_entry obj_id) outs"
  have s: "insert_stream obj_id table ins outs res = ?body @ [End_entry obj_id res]"
    by (simp add: insert_stream_def)
  have "n \<le> length ?body" using assms by (simp add: insert_stream_def)
  then have "take n (insert_stream obj_id table ins outs res) = take n ?body"
    by (simp only: s take_append) simp
  moreover have "\<forall>e \<in> set ?body. entry_type e \<noteq> INSERT_END"
    by (auto simp: INSERT_START_def INSERT_IATTR_def INSERT_OATTR_def INSERT_END_def)
  ultimately show ?thesis
    by (metis in_set_takeD)
qed

text \<open>
  Claim C5. The stream of one cache insert for an object id consists of an
  \<^verbatim>\<open>INSERT_START\<close> entry, then the \<^verbatim>\<open>INSERT_IATTR\<close> entries, then the
  \<^verbatim>\<open>INSERT_OATTR\<close> entries, then one \<^verbatim>\<open>INSERT_END\<close> entry, all for that object id.
  The persistence thread that consumes the whole stream in this order adds exactly one
  record, with the streamed input and output attributes and the result, and is left
  with no pending insert. After any proper prefix of the stream (a stream cut short)
  it has added no record; more generally no sequence of entries without an
  \<^verbatim>\<open>INSERT_END\<close> entry adds a record.
\<close>

theorem insert_stream_protocol:
  "map entry_type (insert_stream obj_id table ins outs res) =
     INSERT_START # replicate (length ins) INSERT_IATTR @
     replicate (length outs) INSERT_OATTR @ [INSERT_END] \<and>
   (\<forall>e \<in> set (insert_stream obj_id table ins outs res). entry_oid e = obj_id) \<and>
   ocache_consume_all sigf st (insert_stream obj_id table ins outs res) =
     st\<lparr>pending := None,
        materialized := materialized st @
          [(table, \<lparr>oid = obj_id, iattr_sig = sigf ins, result = res,
                    iattr = ins, oattr = outs\<rparr>)]\<rparr> \<and>
   (\<forall>n < length (insert_stream obj_id table ins outs res).
      materialized (ocache_consume_all sigf st (take n (insert_stream obj_id table ins outs res))) =
        materialized st) \<and>
   (\<forall>es. (\<forall>e \<in> set es. entry_type e \<noteq> INSERT_END) \<longrightarrow>
      materialized (ocache_consume_all sigf st es) = materialized st)"
  using insert_stream_types [of obj_id table ins outs res]
    insert_stream_oids [of obj_id table ins outs res]
    consume_insert_stream [of sigf st obj_id table ins outs res]
    insert_stream_prefix_no_end [of _ obj_id table ins outs res]
    consume_all_no_end [of _ sigf st]
  by (intro conjI allI impI) blast+

text \<open>
  Scenario S1 of the spec: object 42, one input attribute \<open>color\<close>, no output
  attribute, result 100, consumed by an idle persistence thread with an empty cache.
  The whole stream of three entries gives the one record; its first two entries give
  none.
\<close>

theorem insert_stream_protocol_witness:
  "materialized
     (ocache_consume_all (\<lambda>attrs. replicate 16 0) \<lparr>pending = None, materialized = []\<rparr>
        (insert_stream 42 0x2000
           [\<lparr>name_len = 5, attr_name = ''color'', attr_sig = replicate 16 1\<rparr>] [] 100))
   = [(0x2000,
       \<lparr>oid = 42, iattr_sig = replicate 16 0, result = 100,
        iattr = [\<lparr>name_len = 5, attr_name = ''color'', attr_sig = replicate 16 1\<rparr>],
        oattr = []\<rparr>)] \<and>
   length (insert_stream 42 0x2000
           [\<lparr>name_len = 5, attr_name = ''color'', attr_sig = replicate 16 1\<rparr>] [] 100) = 3 \<and>
   materialized
     (ocache_consume_all (\<lambda>attrs. replicate 16 0) \<lparr>pending = None, materialized = []\<rparr>
        (take 2 (insert_stream 42 0x2000
           [\<lparr>name_len = 5, attr_name = ''color'', attr_sig = replicate 16 1\<rparr>] [] 100)))
   = []"
proof -
  let ?a = "\<lparr>name_len = 5, attr_name = ''color'', attr_sig = replicate 16 (1 :: byte)\<rparr>"
  let ?st = "\<lparr>pending = None, materialized = []\<rparr>"
  have l: "length (insert_stream 42 0x2000 [?a] [] 100) = 3"
    by (simp add: insert_stream_def)
  show ?thesis
    using l insert_stream_protocol [of 42 "0x2000" "[?a]" "[]" 100 "\<lambda>attrs. replicate 16 0" ?st]
    by simp
qed

end
